theory Spec2Isabelle
  imports Main "HOL-Library.AList" "HOL-Library.Word"
begin

section \<open>Values\<close>

text \<open>
  The configuration is whatever \<^verbatim>\<open>json.load\<close> returns: \<^verbatim>\<open>None\<close>, a bool, an int, a
  float, a str, a list or a dict with str keys. A Python \<^verbatim>\<open>str\<close> is carried as its UTF-8
  bytes, a float as the 64 bits of its IEEE-754 double, and a dict as an association list in
  insertion order.
\<close>

datatype pyval =
    PNone
  | PBool bool
  | PInt int
  | PFloat "64 word"
  | PStr string
  | PList "pyval list"
  | PDict "(string \<times> pyval) list"

type_synonym pydict = "(string \<times> pyval) list"

text \<open>
  Truth value of an object, as an \<^verbatim>\<open>if\<close> statement takes it: \<^verbatim>\<open>None\<close>, \<^verbatim>\<open>False\<close>, zero
  and the empty str, list and dict are false. A float is false when it is \<open>+0.0\<close> or
  \<open>-0.0\<close>, that is, when all bits but the sign bit are clear.
\<close>

fun truthy :: "pyval \<Rightarrow> bool" where
  "truthy PNone = False"
| "truthy (PBool b) = b"
| "truthy (PInt n) = (n \<noteq> 0)"
| "truthy (PFloat w) = (take_bit 63 w \<noteq> 0)"
| "truthy (PStr s) = (s \<noteq> [])"
| "truthy (PList xs) = (xs \<noteq> [])"
| "truthy (PDict d) = (d \<noteq> [])"

subsection \<open>Whitespace\<close>

text \<open>
  \<^verbatim>\<open>s.strip()\<close> removes the code points for which \<^verbatim>\<open>str.isspace\<close> holds: U+0009 to
  U+000D, U+001C to U+0020, U+0085, U+00A0, U+1680, U+2000 to U+200A, U+2028, U+2029,
  U+202F, U+205F and U+3000. What the source asks of it is only whether anything remains,
  which is decided on the UTF-8 bytes: the code points are one, two or three bytes long.
\<close>

definition space1 :: "nat \<Rightarrow> bool" where
  "space1 a = (9 \<le> a \<and> a \<le> 13 \<or> 28 \<le> a \<and> a \<le> 32)"

definition space2 :: "nat \<Rightarrow> nat \<Rightarrow> bool" where
  "space2 a b = (a = 0xC2 \<and> (b = 0x85 \<or> b = 0xA0))"

definition space3 :: "nat \<Rightarrow> nat \<Rightarrow> nat \<Rightarrow> bool" where
  "space3 a b c =
     (a = 0xE1 \<and> b = 0x9A \<and> c = 0x80
      \<or> a = 0xE2 \<and> b = 0x80 \<and> (0x80 \<le> c \<and> c \<le> 0x8A \<or> c = 0xA8 \<or> c = 0xA9 \<or> c = 0xAF)
      \<or> a = 0xE2 \<and> b = 0x81 \<and> c = 0x9F
      \<or> a = 0xE3 \<and> b = 0x80 \<and> c = 0x80)"

fun all_space :: "nat list \<Rightarrow> bool" where
  "all_space [] = True"
| "all_space [a] = space1 a"
| "all_space [a, b] = (if space1 a then space1 b else space2 a b)"
| "all_space (a # b # c # bs) =
     (if space1 a then all_space (b # c # bs)
      else if space2 a b then all_space (c # bs)
      else space3 a b c \<and> all_space bs)"

text \<open>\<^verbatim>\<open>not s.strip()\<close>: nothing is left of \<open>s\<close> once the whitespace is stripped.\<close>

definition strip_empty :: "string \<Rightarrow> bool" where
  "strip_empty s = all_space (map of_char s)"


section \<open>Errors\<close>

text \<open>
  The exceptions the source raises. Its message texts are Russian; each format string is a
  constructor here and what the source interpolates into it is the argument.
\<close>

datatype message =
    ConfigNotFound string
    \<comment> \<open>"configuration file '<config_file>' not found"\<close>
  | JsonParseError string string
    \<comment> \<open>"JSON parse error in file '<config_file>': <message of the decoder>"\<close>
  | UnexpectedLoadError string
    \<comment> \<open>"unexpected error while loading the configuration: <message of the cause>"\<close>
  | MissingParam string
    \<comment> \<open>"required parameter missing: <param>"\<close>
  | BadPackageName
    \<comment> \<open>"the package name must be a non-empty string"\<close>
  | MissingTestPath
    \<comment> \<open>"in test repository mode test_repository_path must be given"\<close>
  | BadRepositoryUrl
    \<comment> \<open>"the repository URL must be a non-empty string"\<close>

datatype exn =
    FileNotFoundError message
  | ValueError message
  | RuntimeError message
  | KeyError string
  | OSError string


section \<open>Objects and computations\<close>

text \<open>
  A dict is an object: a function that is handed one is handed a reference, and an
  assignment \<^verbatim>\<open>d[k] = v\<close> changes the object for everyone who holds it. The store is the list
  of the dict objects allocated so far and a reference is an index into it.
\<close>

type_synonym ref = nat
type_synonym heap = "pydict list"

text \<open>
  An expression or a statement of the source runs on the store; it yields a value or raises,
  and leaves a store either way. Statements run one after the other until one raises.
\<close>

type_synonym 'a comp = "heap \<Rightarrow> (exn + 'a) \<times> heap"

definition returns :: "'a \<Rightarrow> 'a comp" where
  "returns x = (\<lambda>h. (Inr x, h))"

definition raises :: "exn \<Rightarrow> 'a comp" where
  "raises e = (\<lambda>h. (Inl e, h))"

definition and_then :: "'a comp \<Rightarrow> ('a \<Rightarrow> 'b comp) \<Rightarrow> 'b comp" where
  "and_then m f = (\<lambda>h. case m h of (Inl e, h') \<Rightarrow> (Inl e, h') | (Inr x, h') \<Rightarrow> f x h')"

text \<open>\<^verbatim>\<open>d.copy()\<close>: a new object with the same items; the store grows by one.\<close>

definition dict_copy :: "ref \<Rightarrow> ref comp" where
  "dict_copy r = (\<lambda>h. (Inr (length h), h @ [h ! r]))"

text \<open>
  \<^verbatim>\<open>d[k] = v\<close>: the value of an existing key is replaced where it stands, a new key goes to
  the end.
\<close>

definition setitem :: "ref \<Rightarrow> string \<Rightarrow> pyval \<Rightarrow> unit comp" where
  "setitem r k v = (\<lambda>h. (Inr (), h[r := AList.update k v (h ! r)]))"

text \<open>\<^verbatim>\<open>k in d\<close> and \<^verbatim>\<open>d[k]\<close>, which raises \<^verbatim>\<open>KeyError\<close> on a key that is not there.\<close>

definition contains :: "ref \<Rightarrow> string \<Rightarrow> bool comp" where
  "contains r k = (\<lambda>h. (Inr (map_of (h ! r) k \<noteq> None), h))"

definition getitem :: "ref \<Rightarrow> string \<Rightarrow> pyval comp" where
  "getitem r k =
     (\<lambda>h. (case map_of (h ! r) k of None \<Rightarrow> Inl (KeyError k) | Some v \<Rightarrow> Inr v, h))"

text \<open>A computation that leaves every store as it found it.\<close>

definition read_only :: "'a comp \<Rightarrow> bool" where
  "read_only m = (\<forall>h. snd (m h) = h)"

section \<open>Command-line arguments\<close>

text \<open>
  The \<^verbatim>\<open>argparse.Namespace\<close> that \<^verbatim>\<open>setup_cli_parser().parse_args()\<close> returns: an option
  that takes a value is \<^verbatim>\<open>None\<close> when it is not given (\<^verbatim>\<open>--config\<close> has a default), a
  \<^verbatim>\<open>store_true\<close> flag is \<^verbatim>\<open>False\<close>.
\<close>

record cli_args =
  config :: string
  create_config :: bool
  package_name :: "string option"
  repository_url :: "string option"
  output_filename :: "string option"
  package_filter :: "string option"
  ascii_tree :: bool
  no_ascii_tree :: bool
  test_mode :: bool
  no_test_mode :: bool


section \<open>merge\_configs\<close>

text \<open>
  \<^verbatim>\<open>if cli_args.package_name: config["package_name"] = cli_args.package_name\<close> takes the
  truth value of an optional str, so \<^verbatim>\<open>None\<close> and the empty str leave the key alone.
\<close>

fun override_str :: "string option \<Rightarrow> ref \<Rightarrow> string \<Rightarrow> unit comp" where
  "override_str None r k = returns ()"
| "override_str (Some s) r k = (if s \<noteq> [] then setitem r k (PStr s) else returns ())"

text \<open>\<^verbatim>\<open>if cli_args.package_filter is not None:\<close> lets the empty str through.\<close>

fun override_given :: "string option \<Rightarrow> ref \<Rightarrow> string \<Rightarrow> unit comp" where
  "override_given None r k = returns ()"
| "override_given (Some s) r k = setitem r k (PStr s)"

text \<open>\<^verbatim>\<open>if cli_args.ascii_tree: config["ascii_tree_output"] = True\<close> and its like.\<close>

definition override_flag :: "bool \<Rightarrow> ref \<Rightarrow> string \<Rightarrow> bool \<Rightarrow> unit comp" where
  "override_flag flag r k b = (if flag then setitem r k (PBool b) else returns ())"

text \<open>The overrides run in the source's order on the copy, which is what is returned.\<close>

definition merge_configs :: "ref \<Rightarrow> cli_args \<Rightarrow> ref comp" where
  "merge_configs file_config cli =
     and_then (dict_copy file_config) (\<lambda>cfg.
     and_then (override_str (package_name cli) cfg ''package_name'') (\<lambda>_.
     and_then (override_str (repository_url cli) cfg ''repository_url'') (\<lambda>_.
     and_then (override_str (output_filename cli) cfg ''output_filename'') (\<lambda>_.
     and_then (override_given (package_filter cli) cfg ''package_filter'') (\<lambda>_.
     and_then (override_flag (ascii_tree cli) cfg ''ascii_tree_output'' True) (\<lambda>_.
     and_then (override_flag (no_ascii_tree cli) cfg ''ascii_tree_output'' False) (\<lambda>_.
     and_then (override_flag (test_mode cli) cfg ''test_repository_mode'' True) (\<lambda>_.
     and_then (override_flag (no_test_mode cli) cfg ''test_repository_mode'' False) (\<lambda>_.
     returns cfg)))))))))"

text \<open>
  The arguments of a run that overrides nothing: no option given, every flag \<^verbatim>\<open>False\<close>.
\<close>

definition no_overrides :: "string \<Rightarrow> cli_args" where
  "no_overrides path =
     \<lparr>config = path, create_config = False, package_name = None, repository_url = None,
      output_filename = None, package_filter = None, ascii_tree = False,
      no_ascii_tree = False, test_mode = False, no_test_mode = False\<rparr>"

subsection \<open>The items of the merged dict\<close>

text \<open>
  The same overrides read as functions on the items of one dict; \<open>merge_configs_eq\<close> below
  shows that the object \<open>merge_configs\<close> returns holds \<open>merged cli\<close> of the items of
  \<open>file_config\<close>.
\<close>

fun put_str :: "string option \<Rightarrow> string \<Rightarrow> pydict \<Rightarrow> pydict" where
  "put_str None k d = d"
| "put_str (Some s) k d = (if s \<noteq> [] then AList.update k (PStr s) d else d)"

fun put_given :: "string option \<Rightarrow> string \<Rightarrow> pydict \<Rightarrow> pydict" where
  "put_given None k d = d"
| "put_given (Some s) k d = AList.update k (PStr s) d"

definition put_flag :: "bool \<Rightarrow> string \<Rightarrow> bool \<Rightarrow> pydict \<Rightarrow> pydict" where
  "put_flag flag k b d = (if flag then AList.update k (PBool b) d else d)"

definition merged :: "cli_args \<Rightarrow> pydict \<Rightarrow> pydict" where
  "merged cli d =
     put_flag (no_test_mode cli) ''test_repository_mode'' False
       (put_flag (test_mode cli) ''test_repository_mode'' True
         (put_flag (no_ascii_tree cli) ''ascii_tree_output'' False
           (put_flag (ascii_tree cli) ''ascii_tree_output'' True
             (put_given (package_filter cli) ''package_filter''
               (put_str (output_filename cli) ''output_filename''
                 (put_str (repository_url cli) ''repository_url''
                   (put_str (package_name cli) ''package_name'' d)))))))"

text \<open>The keys \<open>merge_configs\<close> may assign.\<close>

definition override_targets :: "string list" where
  "override_targets =
     [''package_name'', ''repository_url'', ''output_filename'', ''package_filter'',
      ''ascii_tree_output'', ''test_repository_mode'']"


section \<open>validate\_configuration\<close>

definition required_params :: "string list" where
  "required_params =
     [''package_name'', ''repository_url'', ''test_repository_mode'', ''output_filename'',
      ''ascii_tree_output'']"

text \<open>The loop over \<^verbatim>\<open>required_params\<close> raises at the first one that is missing.\<close>

fun check_required :: "string list \<Rightarrow> ref \<Rightarrow> unit comp" where
  "check_required [] cfg = returns ()"
| "check_required (param # params) cfg =
     and_then (contains cfg param) (\<lambda>present.
       if \<not> present then raises (ValueError (MissingParam param))
       else check_required params cfg)"

text \<open>\<^verbatim>\<open>not isinstance(v, str) or not v.strip()\<close>.\<close>

fun not_str_or_blank :: "pyval \<Rightarrow> bool" where
  "not_str_or_blank (PStr s) = strip_empty s"
| "not_str_or_blank v = True"

definition validate_configuration :: "ref \<Rightarrow> unit comp" where
  "validate_configuration cfg =
     and_then (check_required required_params cfg) (\<lambda>_.
     and_then (getitem cfg ''package_name'') (\<lambda>name.
     if not_str_or_blank name then raises (ValueError BadPackageName)
     else
     and_then (getitem cfg ''test_repository_mode'') (\<lambda>mode.
     if truthy mode then
       and_then (contains cfg ''test_repository_path'') (\<lambda>present.
       if \<not> present then raises (ValueError MissingTestPath)
       else returns ())
     else
       and_then (getitem cfg ''repository_url'') (\<lambda>url.
       if not_str_or_blank url then raises (ValueError BadRepositoryUrl)
       else returns ()))))"

text \<open>The keys \<open>validate_configuration\<close> looks at.\<close>

definition validated_keys :: "string list" where
  "validated_keys = required_params @ [''test_repository_path'']"

section \<open>Files\<close>

text \<open>
  What the file system holds under a path: nothing (\<^verbatim>\<open>os.path.exists\<close> is false), something
  that \<^verbatim>\<open>open\<close> or \<^verbatim>\<open>read\<close> fails on with the given cause (a directory, no permission,
  bytes that are not UTF-8), or a text file.
\<close>

datatype node = Missing | Unreadable string | Regular string

text \<open>
  The world a call runs in: the files, what writing does, and the lines printed so far.
  What \<^verbatim>\<open>open(path, 'w')\<close> and the writes that follow do is the operating system's to say:
  \<open>on_write w path text\<close> is the cause of the failure, if they fail, and what the path
  holds afterwards. An ordinary file holds the text written; a device such as
  \<^verbatim>\<open>/dev/null\<close> takes the text and reads as empty, and a file that may be written but not
  read takes the text and still fails to open for reading.
\<close>

datatype line = CreatedDefaultConfig string
  \<comment> \<open>"default configuration file created: <config_file>"\<close>

record world =
  files :: "string \<Rightarrow> node"
  on_write :: "string \<Rightarrow> string \<Rightarrow> string option \<times> node"
  stdout :: "line list"

text \<open>
  The \<^verbatim>\<open>json\<close> module is the standard library's, not this program's; the functions below
  take its decoder and its encoder as arguments. \<^verbatim>\<open>json.load\<close> returns the value, raises
  \<^verbatim>\<open>JSONDecodeError\<close> with a message, or fails otherwise (\<^verbatim>\<open>RecursionError\<close> on deep
  nesting).
\<close>

datatype decoded = Decoded pyval | JSONDecodeError string | Failure string

section \<open>load\_configuration\<close>

definition load_configuration :: "(string \<Rightarrow> decoded) \<Rightarrow> string \<Rightarrow> world \<Rightarrow> exn + pyval" where
  "load_configuration json_load config_file w =
     (case files w config_file of
        Missing \<Rightarrow> Inl (FileNotFoundError (ConfigNotFound config_file))
      | Unreadable cause \<Rightarrow> Inl (RuntimeError (UnexpectedLoadError cause))
      | Regular text \<Rightarrow>
          (case json_load text of
             Decoded v \<Rightarrow> Inr v
           | JSONDecodeError m \<Rightarrow> Inl (ValueError (JsonParseError config_file m))
           | Failure cause \<Rightarrow> Inl (RuntimeError (UnexpectedLoadError cause))))"

section \<open>create\_default\_config\<close>

definition default_config :: pydict where
  "default_config =
     [(''package_name'', PStr ''example-package''),
      (''repository_url'', PStr ''https://github.com/example/repo''),
      (''test_repository_mode'', PBool False),
      (''test_repository_path'', PStr ''./test-repo''),
      (''output_filename'', PStr ''dependency_graph.png''),
      (''ascii_tree_output'', PBool True),
      (''package_filter'', PStr [])]"

text \<open>
  The source does not catch what \<^verbatim>\<open>open\<close> and \<^verbatim>\<open>json.dump\<close> raise, so a failure to write
  leaves the call with \<^verbatim>\<open>OSError\<close> and nothing printed. When the write is done the line
  is printed. Either way the path holds what the file system says it holds after the write.
\<close>

definition create_default_config ::
    "(pyval \<Rightarrow> string) \<Rightarrow> string \<Rightarrow> world \<Rightarrow> (exn + unit) \<times> world" where
  "create_default_config json_dump config_file w =
     (case on_write w config_file (json_dump (PDict default_config)) of
        (Some cause, n) \<Rightarrow>
          (Inl (OSError cause), w\<lparr>files := (files w)(config_file := n)\<rparr>)
      | (None, n) \<Rightarrow>
          (Inr (),
           w\<lparr>files := (files w)(config_file := n),
             stdout := stdout w @ [CreatedDefaultConfig config_file]\<rparr>))"

section \<open>Sample inputs\<close>

text \<open>Concrete configurations, arguments and worlds at which the theorems below are run.\<close>

definition sample_config :: pydict where
  "sample_config =
     [(''package_name'', PStr ''a''),
      (''repository_url'', PStr ''https://example.org/repo''),
      (''test_repository_mode'', PBool False),
      (''output_filename'', PStr ''graph.png''),
      (''ascii_tree_output'', PBool True),
      (''package_filter'', PStr ''lib''),
      (''schema_version'', PInt 3)]"

text \<open>No \<^verbatim>\<open>package_name\<close> and no \<^verbatim>\<open>output_filename\<close>.\<close>

definition incomplete_config :: pydict where
  "incomplete_config =
     [(''repository_url'', PStr ''https://example.org/repo''),
      (''test_repository_mode'', PBool False),
      (''ascii_tree_output'', PBool True)]"

text \<open>The required keys, with the given values of \<^verbatim>\<open>test_repository_mode\<close> and \<^verbatim>\<open>repository_url\<close>.\<close>

definition config_with :: "pyval \<Rightarrow> pyval \<Rightarrow> pydict" where
  "config_with mode url =
     [(''package_name'', PStr ''a''),
      (''repository_url'', url),
      (''test_repository_mode'', mode),
      (''output_filename'', PStr ''graph.png''),
      (''ascii_tree_output'', PBool True)]"

text \<open>
  The text \<^verbatim>\<open>json.dump(default_config, file, indent=4, ensure_ascii=False)\<close> writes, and what
  the library's encoder and decoder answer on the documents used below; \<open>sample_dump\<close>
  and \<open>sample_load\<close> stand in for the library at these inputs and are not meant
  elsewhere.
\<close>

definition default_text :: string where
  \<open>default_text =
     ''{\<newline>'' @
     ''    "package_name": "example-package",\<newline>'' @
     ''    "repository_url": "https://github.com/example/repo",\<newline>'' @
     ''    "test_repository_mode": false,\<newline>'' @
     ''    "test_repository_path": "./test-repo",\<newline>'' @
     ''    "output_filename": "dependency_graph.png",\<newline>'' @
     ''    "ascii_tree_output": true,\<newline>'' @
     ''    "package_filter": ""\<newline>'' @
     ''}''\<close>

definition sample_dump :: "pyval \<Rightarrow> string" where
  "sample_dump v = (if v = PDict default_config then default_text else ''null'')"

definition sample_load :: "string \<Rightarrow> decoded" where
  "sample_load text =
     (if text = default_text then Decoded (PDict default_config)
      else if text = ''null'' then Decoded PNone
      else if text = ''{oops'' then
        JSONDecodeError
          ''Expecting property name enclosed in double quotes: line 1 column 2 (char 1)''
      else JSONDecodeError ''Expecting value: line 1 column 1 (char 0)'')"

text \<open>The message of \<^verbatim>\<open>IsADirectoryError\<close>, with the path in single quotes.\<close>

definition is_a_directory :: "string \<Rightarrow> string" where
  "is_a_directory path = ''[Errno 21] Is a directory: '' @ [CHR 0x27] @ path @ [CHR 0x27]"

text \<open>
  A world with a good configuration file, a file that is not JSON, a file that holds
  \<^verbatim>\<open>null\<close>, a directory and the null device; elsewhere there is nothing and a write makes
  an ordinary file.
\<close>

definition sample_world :: world where
  "sample_world =
     \<lparr>files = (\<lambda>p. Missing)
        (''config.json'' := Regular default_text,
         ''broken.json'' := Regular ''{oops'',
         ''null.json'' := Regular ''null'',
         ''somedir'' := Unreadable (is_a_directory ''somedir''),
         ''/dev/null'' := Regular []),
      on_write = (\<lambda>p text. (None, Regular text))
        (''somedir'' :=
           (\<lambda>text. (Some (is_a_directory ''somedir''),
              Unreadable (is_a_directory ''somedir''))),
         ''/dev/null'' := (\<lambda>text. (None, Regular []))),
      stdout = []\<rparr>"

section \<open>Properties of merge\_configs\<close>

lemmas comp_defs = returns_def raises_def and_then_def contains_def getitem_def

lemma setitem_last: "setitem (length h) k v (h @ [d]) = (Inr (), h @ [AList.update k v d])"
  by (simp add: setitem_def)

lemma override_str_last:
  "override_str x (length h) k (h @ [d]) = (Inr (), h @ [put_str x k d])"
  by (cases x) (simp_all add: setitem_last returns_def)

lemma override_given_last:
  "override_given x (length h) k (h @ [d]) = (Inr (), h @ [put_given x k d])"
  by (cases x) (simp_all add: setitem_last returns_def)

lemma override_flag_last:
  "override_flag f (length h) k b (h @ [d]) = (Inr (), h @ [put_flag f k b d])"
  by (simp add: override_flag_def put_flag_def setitem_last returns_def)

text \<open>
  The call never raises. It allocates one object, the copy, and every assignment goes to it:
  the object returned holds the overridden items and the store is otherwise as before.
\<close>

lemma merge_configs_eq:
  "merge_configs file_config cli h = (Inr (length h), h @ [merged cli (h ! file_config)])"
  by (simp add: merge_configs_def dict_copy_def merged_def and_then_def returns_def
      override_str_last override_given_last override_flag_last)

lemma map_of_put_str:
  "map_of (put_str x k d) k' =
     (case x of None \<Rightarrow> map_of d k'
      | Some s \<Rightarrow> if s \<noteq> [] \<and> k' = k then Some (PStr s) else map_of d k')"
  by (cases x) (simp_all add: AList.update_conv')

lemma map_of_put_given:
  "map_of (put_given x k d) k' =
     (case x of None \<Rightarrow> map_of d k' | Some s \<Rightarrow> if k' = k then Some (PStr s) else map_of d k')"
  by (cases x) (simp_all add: AList.update_conv')

lemma map_of_put_flag:
  "map_of (put_flag f k b d) k' = (if f \<and> k' = k then Some (PBool b) else map_of d k')"
  by (simp add: put_flag_def AList.update_conv')

lemmas map_of_put = map_of_put_str map_of_put_given map_of_put_flag

lemma merged_package_name:
  "map_of (merged cli d) ''package_name'' =
     (case package_name cli of None \<Rightarrow> map_of d ''package_name''
      | Some s \<Rightarrow> if s \<noteq> [] then Some (PStr s) else map_of d ''package_name'')"
  by (simp add: merged_def map_of_put AList.update_conv' split: option.splits)

lemma merged_repository_url:
  "map_of (merged cli d) ''repository_url'' =
     (case repository_url cli of None \<Rightarrow> map_of d ''repository_url''
      | Some s \<Rightarrow> if s \<noteq> [] then Some (PStr s) else map_of d ''repository_url'')"
  by (simp add: merged_def map_of_put AList.update_conv' split: option.splits)

lemma merged_output_filename:
  "map_of (merged cli d) ''output_filename'' =
     (case output_filename cli of None \<Rightarrow> map_of d ''output_filename''
      | Some s \<Rightarrow> if s \<noteq> [] then Some (PStr s) else map_of d ''output_filename'')"
  by (simp add: merged_def map_of_put AList.update_conv' split: option.splits)

lemma merged_package_filter:
  "map_of (merged cli d) ''package_filter'' =
     (case package_filter cli of None \<Rightarrow> map_of d ''package_filter'' | Some s \<Rightarrow> Some (PStr s))"
  by (simp add: merged_def map_of_put AList.update_conv' split: option.splits)

lemma merged_other:
  "k \<notin> set override_targets \<Longrightarrow> map_of (merged cli d) k = map_of d k"
  by (simp add: merged_def map_of_put AList.update_conv' override_targets_def
      split: option.splits)

lemma merged_no_overrides:
  assumes "package_name cli = None" "repository_url cli = None" "output_filename cli = None"
    "package_filter cli = None" "\<not> ascii_tree cli" "\<not> no_ascii_tree cli" "\<not> test_mode cli"
    "\<not> no_test_mode cli"
  shows "merged cli d = d"
  using assms by (simp add: merged_def put_flag_def)

lemmas eval_merge = merge_configs_eq merged_def put_flag_def no_overrides_def

text \<open>
  C1. Merging a file configuration with arguments that override nothing (no option given,
  every flag false, \<^verbatim>\<open>package_filter\<close> absent) returns a dict equal to the file
  configuration: the same items in the same order.
\<close>

theorem merge_configs_no_overrides:
  assumes "file_config < length h"
    and "package_name cli = None" and "repository_url cli = None"
    and "output_filename cli = None" and "package_filter cli = None"
    and "\<not> ascii_tree cli" and "\<not> no_ascii_tree cli"
    and "\<not> test_mode cli" and "\<not> no_test_mode cli"
    and "merge_configs file_config cli h = (Inr cfg, h')"
  shows "h' ! cfg = h ! file_config"
  using assms(10) merged_no_overrides [OF assms(2-9)]
  by (auto simp add: merge_configs_eq)

theorem merge_configs_no_overrides_witness:
  "merge_configs 0 (no_overrides ''config.json'') [sample_config]
     = (Inr 1, [sample_config, sample_config])
   \<and> [sample_config, sample_config] ! 1 = [sample_config] ! 0"
  using merge_configs_no_overrides [of 0 "[sample_config]" "no_overrides ''config.json''" 1
      "[sample_config, sample_config]"]
  by (simp add: eval_merge)

text \<open>
  C4. For \<^verbatim>\<open>package_name\<close>, \<^verbatim>\<open>repository_url\<close> and \<^verbatim>\<open>output_filename\<close> the merged dict
  has the command-line value when that is a non-empty str, and what the file has otherwise
  (nothing, if the file has nothing).
\<close>

theorem merge_configs_string_overrides:
  assumes "file_config < length h" and "merge_configs file_config cli h = (Inr cfg, h')"
  shows "map_of (h' ! cfg) ''package_name'' =
           (case package_name cli of
              None \<Rightarrow> map_of (h ! file_config) ''package_name''
            | Some s \<Rightarrow> if s \<noteq> [] then Some (PStr s) else map_of (h ! file_config) ''package_name'')
       \<and> map_of (h' ! cfg) ''repository_url'' =
           (case repository_url cli of
              None \<Rightarrow> map_of (h ! file_config) ''repository_url''
            | Some s \<Rightarrow> if s \<noteq> [] then Some (PStr s) else map_of (h ! file_config) ''repository_url'')
       \<and> map_of (h' ! cfg) ''output_filename'' =
           (case output_filename cli of
              None \<Rightarrow> map_of (h ! file_config) ''output_filename''
            | Some s \<Rightarrow> if s \<noteq> [] then Some (PStr s) else map_of (h ! file_config) ''output_filename'')"
proof -
  from assms(2) have "h' ! cfg = merged cli (h ! file_config)"
    by (auto simp add: merge_configs_eq)
  then show ?thesis
    by (simp only: merged_package_name merged_repository_url merged_output_filename)
qed

text \<open>The file has \<^verbatim>\<open>package_name\<close> \<open>a\<close>, the command line \<^verbatim>\<open>--package-name b\<close>.\<close>

theorem merge_configs_string_overrides_witness:
  "map_of ([sample_config] ! 0) ''package_name'' = Some (PStr ''a'')
   \<and> merge_configs 0 ((no_overrides ''config.json'')\<lparr>package_name := Some ''b''\<rparr>) [sample_config]
     = (Inr 1, [sample_config, AList.update ''package_name'' (PStr ''b'') sample_config])
   \<and> map_of ([sample_config, AList.update ''package_name'' (PStr ''b'') sample_config] ! 1)
        ''package_name'' = Some (PStr ''b'')
   \<and> map_of ([sample_config, AList.update ''package_name'' (PStr ''b'') sample_config] ! 1)
        ''repository_url'' = Some (PStr ''https://example.org/repo'')"
  using merge_configs_string_overrides [of 0 "[sample_config]"
      "(no_overrides ''config.json'')\<lparr>package_name := Some ''b''\<rparr>" 1
      "[sample_config, AList.update ''package_name'' (PStr ''b'') sample_config]"]
  by (simp add: eval_merge sample_config_def)

text \<open>
  C5. The merged \<^verbatim>\<open>package_filter\<close> is the command-line value whenever
  \<^verbatim>\<open>--package-filter\<close> was given, the empty str included, and what the file has when it
  was not given.
\<close>

theorem merge_configs_package_filter:
  assumes "file_config < length h" and "merge_configs file_config cli h = (Inr cfg, h')"
  shows "map_of (h' ! cfg) ''package_filter'' =
           (case package_filter cli of
              None \<Rightarrow> map_of (h ! file_config) ''package_filter''
            | Some s \<Rightarrow> Some (PStr s))"
proof -
  from assms(2) have "h' ! cfg = merged cli (h ! file_config)"
    by (auto simp add: merge_configs_eq)
  then show ?thesis
    by (simp only: merged_package_filter)
qed

text \<open>The file has the filter \<open>lib\<close>, the command line \<^verbatim>\<open>--package-filter ""\<close>.\<close>

theorem merge_configs_package_filter_witness:
  "map_of ([sample_config] ! 0) ''package_filter'' = Some (PStr ''lib'')
   \<and> merge_configs 0 ((no_overrides ''config.json'')\<lparr>package_filter := Some []\<rparr>) [sample_config]
     = (Inr 1, [sample_config, AList.update ''package_filter'' (PStr []) sample_config])
   \<and> map_of ([sample_config, AList.update ''package_filter'' (PStr []) sample_config] ! 1)
        ''package_filter'' = Some (PStr [])"
  using merge_configs_package_filter [of 0 "[sample_config]"
      "(no_overrides ''config.json'')\<lparr>package_filter := Some []\<rparr>" 1
      "[sample_config, AList.update ''package_filter'' (PStr []) sample_config]"]
  by (simp add: eval_merge sample_config_def)

section \<open>Properties of validate\_configuration\<close>

lemma read_only_returns: "read_only (returns x)"
  by (simp add: read_only_def returns_def)

lemma read_only_raises: "read_only (raises e)"
  by (simp add: read_only_def raises_def)

lemma read_only_contains: "read_only (contains r k)"
  by (simp add: read_only_def contains_def)

lemma read_only_getitem: "read_only (getitem r k)"
  by (simp add: read_only_def getitem_def)

lemma read_only_and_then:
  assumes "read_only m" and "\<And>x. read_only (f x)"
  shows "read_only (and_then m f)"
proof -
  have "snd (and_then m f h) = h" for h
  proof (cases "m h")
    case (Pair res h')
    with assms(1) have "h' = h"
      by (auto simp add: read_only_def dest: spec [of _ h])
    with Pair assms(2) show ?thesis
      by (cases res) (simp_all add: and_then_def read_only_def)
  qed
  then show ?thesis
    by (simp add: read_only_def)
qed

lemma read_only_if: "read_only a \<Longrightarrow> read_only b \<Longrightarrow> read_only (if c then a else b)"
  by simp

lemma read_only_check_required: "read_only (check_required ps cfg)"
  by (induction ps)
    (simp_all add: read_only_returns read_only_raises read_only_contains read_only_and_then)

text \<open>Every step of the function is a read or a raise.\<close>

lemma read_only_validate_configuration: "read_only (validate_configuration cfg)"
  unfolding validate_configuration_def
  by (intro read_only_and_then read_only_if read_only_check_required read_only_getitem
      read_only_contains read_only_raises read_only_returns)

lemma check_required_run:
  "check_required ps r h =
     (case find (\<lambda>p. map_of (h ! r) p = None) ps of
        None \<Rightarrow> Inr ()
      | Some p \<Rightarrow> Inl (ValueError (MissingParam p)), h)"
  by (induction ps) (simp_all add: comp_defs)

lemma validate_configuration_missing:
  assumes "find (\<lambda>p. map_of (h ! r) p = None) required_params = Some p"
  shows "fst (validate_configuration r h) = Inl (ValueError (MissingParam p))"
  using assms by (simp add: validate_configuration_def and_then_def check_required_run)

text \<open>With the five required keys there, the checks that remain are these.\<close>

lemma validate_configuration_present:
  assumes "map_of (h ! r) ''package_name'' = Some name"
    and "map_of (h ! r) ''repository_url'' = Some url"
    and "map_of (h ! r) ''test_repository_mode'' = Some mode"
    and "map_of (h ! r) ''output_filename'' = Some out"
    and "map_of (h ! r) ''ascii_tree_output'' = Some tree"
  shows "fst (validate_configuration r h) =
     (if not_str_or_blank name then Inl (ValueError BadPackageName)
      else if truthy mode then
        (if map_of (h ! r) ''test_repository_path'' = None then Inl (ValueError MissingTestPath)
         else Inr ())
      else if not_str_or_blank url then Inl (ValueError BadRepositoryUrl)
      else Inr ())"
proof -
  have "find (\<lambda>p. map_of (h ! r) p = None) required_params = None"
    using assms by (simp add: required_params_def)
  then have "check_required required_params r h = (Inr (), h)"
    by (simp add: check_required_run)
  then show ?thesis
    using assms by (simp add: validate_configuration_def comp_defs)
qed

text \<open>The result depends on the six keys the source looks at and on nothing else.\<close>

lemma validate_configuration_cong:
  assumes "\<forall>k \<in> set validated_keys. map_of (h' ! r') k = map_of (h ! r) k"
  shows "fst (validate_configuration r' h') = fst (validate_configuration r h)"
proof -
  have eqs: "map_of (h' ! r') ''package_name'' = map_of (h ! r) ''package_name''"
    "map_of (h' ! r') ''repository_url'' = map_of (h ! r) ''repository_url''"
    "map_of (h' ! r') ''test_repository_mode'' = map_of (h ! r) ''test_repository_mode''"
    "map_of (h' ! r') ''output_filename'' = map_of (h ! r) ''output_filename''"
    "map_of (h' ! r') ''ascii_tree_output'' = map_of (h ! r) ''ascii_tree_output''"
    "map_of (h' ! r') ''test_repository_path'' = map_of (h ! r) ''test_repository_path''"
    using assms by (simp_all add: validated_keys_def required_params_def)
  show ?thesis
    by (simp add: validate_configuration_def comp_defs check_required_run required_params_def
        eqs split: option.splits)
qed

lemma validate_configuration_setitem:
  assumes "r < length h" and "k \<notin> set validated_keys"
  shows "fst (and_then (setitem r k v) (\<lambda>_. validate_configuration r) h)
           = fst (validate_configuration r h)"
proof -
  have "\<forall>k' \<in> set validated_keys.
      map_of (h[r := AList.update k v (h ! r)] ! r) k' = map_of (h ! r) k'"
    using assms by (auto simp add: AList.update_conv')
  then have "fst (validate_configuration r (h[r := AList.update k v (h ! r)]))
      = fst (validate_configuration r h)"
    by (rule validate_configuration_cong)
  then show ?thesis
    by (simp add: and_then_def setitem_def)
qed

subsection \<open>Whitespace\<close>

text \<open>
  A byte of a str that is all whitespace is an ASCII whitespace character or part of a longer
  code point, so a str with a visible ASCII character is not blank, and neither is \<open>PStr s\<close>
  blank unless \<open>s\<close> is empty or whitespace.
\<close>

lemma all_space_bytes:
  "all_space bs \<Longrightarrow> b \<in> set bs \<Longrightarrow> space1 b \<or> 128 \<le> b"
  by (induction bs rule: all_space.induct)
    (auto simp add: space2_def space3_def split: if_splits)

lemma strip_empty_visible:
  assumes "c \<in> set s" and "32 < (of_char c :: nat)" and "(of_char c :: nat) < 128"
  shows "\<not> strip_empty s"
proof
  assume "strip_empty s"
  then have "all_space (map of_char s)"
    by (simp add: strip_empty_def)
  moreover have "(of_char c :: nat) \<in> set (map of_char s)"
    using assms(1) by simp
  ultimately have "space1 (of_char c) \<or> 128 \<le> (of_char c :: nat)"
    by (rule all_space_bytes)
  with assms(2,3) show False
    by (simp add: space1_def)
qed

lemma strip_empty_Nil: "strip_empty []"
  by (simp add: strip_empty_def)

lemma not_blank_is_str: "\<not> not_str_or_blank v \<Longrightarrow> \<exists>s. v = PStr s \<and> s \<noteq> []"
  by (cases v) (auto simp add: strip_empty_Nil)

lemmas eval_space = strip_empty_def space1_def space2_def space3_def

lemmas eval_validate = validate_configuration_def comp_defs required_params_def eval_space

subsection \<open>Required keys\<close>

text \<open>
  C2. When a required key is missing, the call raises the missing-parameter error that names
  the first missing one in the order \<^verbatim>\<open>package_name\<close>, \<^verbatim>\<open>repository_url\<close>,
  \<^verbatim>\<open>test_repository_mode\<close>, \<^verbatim>\<open>output_filename\<close>, \<^verbatim>\<open>ascii_tree_output\<close>, and that one
  error is all it reports.
\<close>

theorem validate_configuration_missing_required:
  assumes "cfg < length h"
    and "\<exists>param \<in> set required_params. map_of (h ! cfg) param = None"
  shows "required_params =
           [''package_name'', ''repository_url'', ''test_repository_mode'', ''output_filename'',
            ''ascii_tree_output'']
       \<and> (\<exists>param. find (\<lambda>p. map_of (h ! cfg) p = None) required_params = Some param
            \<and> fst (validate_configuration cfg h) = Inl (ValueError (MissingParam param)))"
proof -
  from assms(2) obtain param
    where "find (\<lambda>p. map_of (h ! cfg) p = None) required_params = Some param"
    by (cases "find (\<lambda>p. map_of (h ! cfg) p = None) required_params")
      (auto simp add: find_None_iff)
  then show ?thesis
    by (simp add: validate_configuration_missing required_params_def)
qed

text \<open>
  A configuration without \<^verbatim>\<open>package_name\<close> and without \<^verbatim>\<open>output_filename\<close> is told about
  \<^verbatim>\<open>package_name\<close>.
\<close>

theorem validate_configuration_missing_required_witness:
  "map_of ([incomplete_config] ! 0) ''package_name'' = None
   \<and> map_of ([incomplete_config] ! 0) ''output_filename'' = None
   \<and> fst (validate_configuration 0 [incomplete_config])
     = Inl (ValueError (MissingParam ''package_name''))"
  using validate_configuration_missing_required [of 0 "[incomplete_config]"]
  by (simp add: incomplete_config_def required_params_def)

subsection \<open>The two modes\<close>

text \<open>
  C3, as the source has it. For a configuration with the required keys, a package name that
  is a str with something other than whitespace in it and a boolean
  \<^verbatim>\<open>test_repository_mode\<close>: when the mode is true and \<^verbatim>\<open>test_repository_path\<close> is missing
  the call raises the error that asks for \<^verbatim>\<open>test_repository_path\<close>; when the mode is false
  it raises the repository-URL error exactly when \<^verbatim>\<open>repository_url\<close> is not a str or is a
  str that is empty or all whitespace, and otherwise it passes.
\<close>

theorem validate_configuration_conditional:
  assumes "cfg < length h"
    and "map_of (h ! cfg) ''package_name'' = Some name"
    and "map_of (h ! cfg) ''repository_url'' = Some url"
    and "map_of (h ! cfg) ''test_repository_mode'' = Some (PBool mode)"
    and "map_of (h ! cfg) ''output_filename'' = Some out"
    and "map_of (h ! cfg) ''ascii_tree_output'' = Some tree"
    and "\<not> not_str_or_blank name"
  shows "(mode \<and> map_of (h ! cfg) ''test_repository_path'' = None \<longrightarrow>
            fst (validate_configuration cfg h) = Inl (ValueError MissingTestPath))
       \<and> (\<not> mode \<longrightarrow>
            (fst (validate_configuration cfg h) = Inl (ValueError BadRepositoryUrl))
              = not_str_or_blank url)
       \<and> (\<not> mode \<and> \<not> not_str_or_blank url \<longrightarrow> fst (validate_configuration cfg h) = Inr ())"
  using assms(7)
  by (simp add: validate_configuration_present [OF assms(2-6)])

theorem validate_configuration_conditional_witness:
  "fst (validate_configuration 0 [config_with (PBool True) (PStr ''https://example.org/repo'')])
     = Inl (ValueError MissingTestPath)
   \<and> fst (validate_configuration 0 [config_with (PBool False) (PStr ''https://example.org/repo'')])
     = Inr ()
   \<and> fst (validate_configuration 0 [config_with (PBool False) (PInt 7)])
     = Inl (ValueError BadRepositoryUrl)"
  using
    validate_configuration_conditional [of 0
      "[config_with (PBool True) (PStr ''https://example.org/repo'')]" "PStr ''a''"
      "PStr ''https://example.org/repo''" True "PStr ''graph.png''" "PBool True"]
    validate_configuration_conditional [of 0
      "[config_with (PBool False) (PStr ''https://example.org/repo'')]" "PStr ''a''"
      "PStr ''https://example.org/repo''" False "PStr ''graph.png''" "PBool True"]
    validate_configuration_conditional [of 0
      "[config_with (PBool False) (PInt 7)]" "PStr ''a''"
      "PInt 7" False "PStr ''graph.png''" "PBool True"]
  by (simp add: config_with_def eval_space)

text \<open>
  A \<^verbatim>\<open>repository_url\<close> of one space is a non-empty str, and with the mode false the call
  raises the repository-URL error all the same: \<^verbatim>\<open>url.strip()\<close> is empty.
\<close>

theorem validate_configuration_blank_url_counterexample:
  "map_of (config_with (PBool False) (PStr '' '')) ''test_repository_mode'' = Some (PBool False)
   \<and> map_of (config_with (PBool False) (PStr '' '')) ''repository_url'' = Some (PStr '' '')
   \<and> '' '' \<noteq> []
   \<and> fst (validate_configuration 0 [config_with (PBool False) (PStr '' '')])
     = Inl (ValueError BadRepositoryUrl)"
  by (simp add: config_with_def eval_validate)

text \<open>
  C9. The mode is taken by its truth value, whatever its type. For a configuration with the
  required keys and a good package name, a mode that is true as a condition (a non-empty
  str, say) takes the branch that asks for \<^verbatim>\<open>test_repository_path\<close> and for nothing else,
  and a mode that is false as a condition (\<open>0\<close>, the empty str, \<^verbatim>\<open>None\<close>) takes the branch
  that checks \<^verbatim>\<open>repository_url\<close>, which passes only a non-empty str.
\<close>

theorem validate_configuration_mode_truthiness:
  assumes "cfg < length h"
    and "map_of (h ! cfg) ''package_name'' = Some name"
    and "map_of (h ! cfg) ''repository_url'' = Some url"
    and "map_of (h ! cfg) ''test_repository_mode'' = Some mode"
    and "map_of (h ! cfg) ''output_filename'' = Some out"
    and "map_of (h ! cfg) ''ascii_tree_output'' = Some tree"
    and "\<not> not_str_or_blank name"
  shows "(truthy mode \<longrightarrow>
            fst (validate_configuration cfg h) =
              (if map_of (h ! cfg) ''test_repository_path'' = None
               then Inl (ValueError MissingTestPath) else Inr ()))
       \<and> (\<not> truthy mode \<longrightarrow>
            fst (validate_configuration cfg h) =
              (if not_str_or_blank url then Inl (ValueError BadRepositoryUrl) else Inr ()))
       \<and> (\<not> truthy mode \<and> fst (validate_configuration cfg h) = Inr () \<longrightarrow>
            (\<exists>s. url = PStr s \<and> s \<noteq> []))"
  using assms(7) not_blank_is_str [of url]
  by (simp add: validate_configuration_present [OF assms(2-6)])

theorem validate_configuration_mode_truthiness_witness:
  "fst (validate_configuration 0 [config_with (PStr ''yes'') (PStr ''https://example.org/repo'')])
     = Inl (ValueError MissingTestPath)
   \<and> fst (validate_configuration 0 [config_with (PInt 0) (PStr ''https://example.org/repo'')])
     = Inr ()
   \<and> fst (validate_configuration 0 [config_with (PStr []) (PStr [])])
     = Inl (ValueError BadRepositoryUrl)"
  using
    validate_configuration_mode_truthiness [of 0
      "[config_with (PStr ''yes'') (PStr ''https://example.org/repo'')]" "PStr ''a''"
      "PStr ''https://example.org/repo''" "PStr ''yes''" "PStr ''graph.png''" "PBool True"]
    validate_configuration_mode_truthiness [of 0
      "[config_with (PInt 0) (PStr ''https://example.org/repo'')]" "PStr ''a''"
      "PStr ''https://example.org/repo''" "PInt 0" "PStr ''graph.png''" "PBool True"]
    validate_configuration_mode_truthiness [of 0
      "[config_with (PStr []) (PStr [])]" "PStr ''a''"
      "PStr []" "PStr []" "PStr ''graph.png''" "PBool True"]
  by (simp add: config_with_def eval_space)

subsection \<open>What the calls leave behind\<close>

text \<open>
  C10. The call leaves every object as it found it, the configuration it was given included,
  whether it returns or raises.
\<close>

theorem validate_configuration_read_only:
  "snd (validate_configuration cfg h) = h"
  using read_only_validate_configuration [of cfg] by (simp add: read_only_def)

theorem validate_configuration_read_only_witness:
  "validate_configuration 0 [sample_config] = (Inr (), [sample_config])
   \<and> validate_configuration 0 [incomplete_config]
     = (Inl (ValueError (MissingParam ''package_name'')), [incomplete_config])"
  using validate_configuration_read_only [of 0 "[sample_config]"]
    validate_configuration_read_only [of 0 "[incomplete_config]"]
  by (simp add: eval_validate sample_config_def incomplete_config_def)

text \<open>
  C8. The dict \<open>merge_configs\<close> returns is a new object; the objects that were there before,
  the file configuration among them, are as they were. A key that is not one the function
  assigns has in the result what it has in the file. A key that is not one
  \<open>validate_configuration\<close> looks at changes nothing in what validation says of the result,
  whatever its value.
\<close>

theorem merge_configs_frame:
  assumes "file_config < length h" and "merge_configs file_config cli h = (Inr cfg, h')"
  shows "cfg = length h \<and> cfg \<noteq> file_config \<and> cfg < length h'
       \<and> (\<forall>r < length h. h' ! r = h ! r)
       \<and> h' ! file_config = h ! file_config
       \<and> (\<forall>k. k \<notin> set override_targets \<longrightarrow> map_of (h' ! cfg) k = map_of (h ! file_config) k)
       \<and> (\<forall>k v. k \<notin> set validated_keys \<longrightarrow>
            fst (and_then (setitem cfg k v) (\<lambda>_. validate_configuration cfg) h') =
            fst (validate_configuration cfg h'))"
proof -
  from assms(2) have cfg: "cfg = length h" and h': "h' = h @ [merged cli (h ! file_config)]"
    by (auto simp add: merge_configs_eq)
  have len: "cfg < length h'"
    by (simp add: cfg h')
  have old: "\<forall>r < length h. h' ! r = h ! r"
    by (simp add: h' nth_append)
  have other: "\<forall>k. k \<notin> set override_targets \<longrightarrow> map_of (h' ! cfg) k = map_of (h ! file_config) k"
    by (simp add: cfg h' merged_other)
  have extra: "\<forall>k v. k \<notin> set validated_keys \<longrightarrow>
      fst (and_then (setitem cfg k v) (\<lambda>_. validate_configuration cfg) h')
        = fst (validate_configuration cfg h')"
    using len by (simp add: validate_configuration_setitem)
  from cfg assms(1) len old other extra show ?thesis
    by blast
qed

text \<open>
  The file has a key \<^verbatim>\<open>schema_version\<close> that no function knows; the merged configuration
  passes validation, and passes it whatever that key is set to.
\<close>

theorem merge_configs_frame_witness:
  "merge_configs 0 ((no_overrides ''config.json'')\<lparr>package_name := Some ''b''\<rparr>) [sample_config]
     = (Inr 1, [sample_config, AList.update ''package_name'' (PStr ''b'') sample_config])
   \<and> [sample_config, AList.update ''package_name'' (PStr ''b'') sample_config] ! 0
     = [sample_config] ! 0
   \<and> map_of ([sample_config, AList.update ''package_name'' (PStr ''b'') sample_config] ! 1)
        ''schema_version'' = Some (PInt 3)
   \<and> fst (validate_configuration 1
          [sample_config, AList.update ''package_name'' (PStr ''b'') sample_config])
     = Inr ()
   \<and> fst (and_then (setitem 1 ''schema_version'' PNone) (\<lambda>_. validate_configuration 1)
          [sample_config, AList.update ''package_name'' (PStr ''b'') sample_config])
     = Inr ()"
proof -
  have "fst (validate_configuration 1
      [sample_config, AList.update ''package_name'' (PStr ''b'') sample_config]) = Inr ()"
    by (simp add: eval_validate sample_config_def)
  then show ?thesis
    using merge_configs_frame [of 0 "[sample_config]"
        "(no_overrides ''config.json'')\<lparr>package_name := Some ''b''\<rparr>" 1
        "[sample_config, AList.update ''package_name'' (PStr ''b'') sample_config]"]
    by (simp add: eval_merge sample_config_def override_targets_def validated_keys_def
        required_params_def)
qed

section \<open>Properties of load\_configuration and create\_default\_config\<close>

text \<open>
  C7. Loading a path that does not exist raises \<^verbatim>\<open>FileNotFoundError\<close>; a file whose text
  the decoder rejects raises \<^verbatim>\<open>ValueError\<close> with the decoder's message in it; any other
  failure to open, read or decode raises \<^verbatim>\<open>RuntimeError\<close> with the cause in it; and
  otherwise the call returns what the decoder returned, whatever that is.
\<close>

theorem load_configuration_outcomes:
  "(files w path = Missing \<longrightarrow>
      load_configuration json_load path w = Inl (FileNotFoundError (ConfigNotFound path)))
 \<and> (\<forall>text m. files w path = Regular text \<and> json_load text = JSONDecodeError m \<longrightarrow>
      load_configuration json_load path w = Inl (ValueError (JsonParseError path m)))
 \<and> (\<forall>cause. files w path = Unreadable cause \<longrightarrow>
      load_configuration json_load path w = Inl (RuntimeError (UnexpectedLoadError cause)))
 \<and> (\<forall>text cause. files w path = Regular text \<and> json_load text = Failure cause \<longrightarrow>
      load_configuration json_load path w = Inl (RuntimeError (UnexpectedLoadError cause)))
 \<and> (\<forall>text v. files w path = Regular text \<and> json_load text = Decoded v \<longrightarrow>
      load_configuration json_load path w = Inr v)"
  by (simp add: load_configuration_def)

theorem load_configuration_outcomes_witness:
  "load_configuration sample_load ''missing.json'' sample_world
     = Inl (FileNotFoundError (ConfigNotFound ''missing.json''))
   \<and> load_configuration sample_load ''broken.json'' sample_world
     = Inl (ValueError (JsonParseError ''broken.json''
          ''Expecting property name enclosed in double quotes: line 1 column 2 (char 1)''))
   \<and> load_configuration sample_load ''somedir'' sample_world
     = Inl (RuntimeError (UnexpectedLoadError (is_a_directory ''somedir'')))
   \<and> load_configuration sample_load ''null.json'' sample_world = Inr PNone
   \<and> load_configuration sample_load ''config.json'' sample_world = Inr (PDict default_config)"
  using load_configuration_outcomes [of sample_world "''missing.json''" sample_load]
    load_configuration_outcomes [of sample_world "''broken.json''" sample_load]
    load_configuration_outcomes [of sample_world "''somedir''" sample_load]
    load_configuration_outcomes [of sample_world "''null.json''" sample_load]
    load_configuration_outcomes [of sample_world "''config.json''" sample_load]
  by (simp add: sample_world_def sample_load_def default_text_def)

lemma validate_default_config:
  assumes "h ! r = default_config"
  shows "fst (validate_configuration r h) = Inr ()"
proof -
  have "\<not> strip_empty ''example-package''"
    and "\<not> strip_empty ''https://github.com/example/repo''"
    by (simp_all add: eval_space)
  then show ?thesis
    by (simp add: validate_configuration_present [where name = "PStr ''example-package''"
          and url = "PStr ''https://github.com/example/repo''" and mode = "PBool False"
          and out = "PStr ''dependency_graph.png''" and tree = "PBool True"]
        assms default_config_def)
qed

text \<open>
  C6, as the source has it. At a path where the write of the defaults goes through and
  leaves an ordinary file holding the text written, and with a decoder that reads back what
  the encoder writes for the default mapping (the library's does: the keys are strs and the
  values strs and bools), \<open>create_default_config\<close> returns, loading the path afterwards
  returns the default mapping, whatever was there before, and a dict with these items passes
  validation, as it is and after a merge with arguments that override nothing.
\<close>

theorem default_config_round_trip:
  assumes "on_write w path (json_dump (PDict default_config))
             = (None, Regular (json_dump (PDict default_config)))"
    and "json_load (json_dump (PDict default_config)) = Decoded (PDict default_config)"
    and "r < length h" and "h ! r = default_config"
  shows "fst (create_default_config json_dump path w) = Inr ()
       \<and> load_configuration json_load path (snd (create_default_config json_dump path w))
           = Inr (PDict default_config)
       \<and> default_config =
           [(''package_name'', PStr ''example-package''),
            (''repository_url'', PStr ''https://github.com/example/repo''),
            (''test_repository_mode'', PBool False),
            (''test_repository_path'', PStr ''./test-repo''),
            (''output_filename'', PStr ''dependency_graph.png''),
            (''ascii_tree_output'', PBool True),
            (''package_filter'', PStr [])]
       \<and> fst (validate_configuration r h) = Inr ()
       \<and> fst (and_then (merge_configs r (no_overrides path)) validate_configuration h) = Inr ()"
proof -
  have returned: "fst (create_default_config json_dump path w) = Inr ()"
    and written: "files (snd (create_default_config json_dump path w)) path
      = Regular (json_dump (PDict default_config))"
    using assms(1) by (simp_all add: create_default_config_def)
  from written assms(2)
  have "load_configuration json_load path (snd (create_default_config json_dump path w))
      = Inr (PDict default_config)"
    by (simp add: load_configuration_def)
  moreover have "merged (no_overrides path) default_config = default_config"
    by (rule merged_no_overrides) (simp_all add: no_overrides_def)
  then have "fst (validate_configuration (length h)
      (h @ [merged (no_overrides path) (h ! r)])) = Inr ()"
    by (simp add: validate_default_config assms(4))
  then have "fst (and_then (merge_configs r (no_overrides path)) validate_configuration h)
      = Inr ()"
    by (simp add: and_then_def merge_configs_eq)
  ultimately show ?thesis
    using returned
    by (simp add: validate_default_config [OF assms(4)] default_config_def [symmetric])
qed

text \<open>A path where there was nothing; the write makes an ordinary file.\<close>

theorem default_config_round_trip_witness:
  "on_write sample_world ''new.json'' (sample_dump (PDict default_config))
     = (None, Regular (sample_dump (PDict default_config)))
   \<and> sample_load (sample_dump (PDict default_config)) = Decoded (PDict default_config)
   \<and> files sample_world ''new.json'' = Missing
   \<and> create_default_config sample_dump ''new.json'' sample_world
     = (Inr (),
        sample_world\<lparr>files := (files sample_world)(''new.json'' := Regular default_text),
          stdout := [CreatedDefaultConfig ''new.json'']\<rparr>)
   \<and> load_configuration sample_load ''new.json''
        (snd (create_default_config sample_dump ''new.json'' sample_world))
     = Inr (PDict default_config)
   \<and> fst (validate_configuration 0 [default_config]) = Inr ()"
  using default_config_round_trip [of sample_world "''new.json''" sample_dump sample_load
      0 "[default_config]"]
  by (simp add: sample_load_def sample_dump_def create_default_config_def sample_world_def)

text \<open>
  At \<^verbatim>\<open>/dev/null\<close> the write goes through and the call returns, but the device keeps
  nothing: the load that follows reads the empty text, which is not JSON, and raises
  \<^verbatim>\<open>ValueError\<close> instead of returning the default mapping.
\<close>

theorem default_config_round_trip_counterexample:
  "fst (create_default_config sample_dump ''/dev/null'' sample_world) = Inr ()
   \<and> load_configuration sample_load ''/dev/null''
        (snd (create_default_config sample_dump ''/dev/null'' sample_world))
     = Inl (ValueError (JsonParseError ''/dev/null''
          ''Expecting value: line 1 column 1 (char 0)''))
   \<and> load_configuration sample_load ''/dev/null''
        (snd (create_default_config sample_dump ''/dev/null'' sample_world))
     \<noteq> Inr (PDict default_config)"
  by (simp add: create_default_config_def load_configuration_def sample_world_def
      sample_load_def sample_dump_def default_text_def)

end
